theory Spec2Isabelle
  imports Complex_Main
begin

section \<open>Fee step of the permit application form\<close>

text \<open>
  The development embeds \<^verbatim>\<open>src/components/public/steps/ApplicationFeeStep.tsx\<close>.
  Monetary amounts are JavaScript numbers in the source; they are modelled as exact
  rationals, so \<^verbatim>\<open>NaN\<close>, infinities and binary rounding are outside the model.
  Form fields typed \<^verbatim>\<open>any\<close> that the component reads as strings are
  \<open>string option\<close>, with \<open>None\<close> for \<^verbatim>\<open>undefined\<close>/\<^verbatim>\<open>null\<close>.
\<close>

subsection \<open>Data\<close>

text \<open>
  Modelled from the spec: the \<^verbatim>\<open>source\<close> of a breakdown, which tells a schedule
  found in the system of record from the built-in default. The type of that field is
  declared in the hook module, which is not among the sources.
\<close>

datatype fee_source = Database | Default

text \<open>
  The object returned by \<^verbatim>\<open>calculateFeesWithSupabase\<close> and stored as
  \<^verbatim>\<open>calculatedFees\<close>. Its declaration is in the hook module, which is not part
  of the sources at hand; the fields are those the two form steps read
  (\<^verbatim>\<open>administrationFee\<close>, \<^verbatim>\<open>technicalFee\<close>, \<^verbatim>\<open>totalFee\<close>,
  \<^verbatim>\<open>processingDays\<close>, \<^verbatim>\<open>administrationForm\<close>, \<^verbatim>\<open>technicalForm\<close>,
  \<^verbatim>\<open>source\<close>) plus \<^verbatim>\<open>compositeFee\<close>, which only the component writes.
\<close>

record fees =
  administrationFee :: rat
  technicalFee :: rat
  totalFee :: rat
  processingDays :: nat
  administrationForm :: string
  technicalForm :: string
  source :: fee_source
  compositeFee :: "rat option"

text \<open>The \<^verbatim>\<open>data\<close> prop: the fields of the draft that the component reads.\<close>

record form_data =
  permit_type :: "string option"
  permit_type_id :: "string option"
  activity_level :: "string option"
  activity_category :: "string option"
  activity_subcategory :: "string option"
  prescribed_activity_id :: "string option"
  data_calculatedFees :: "fees option"

text \<open>\<^verbatim>\<open>FeeCalculationParams\<close>, as the object literal of \<^verbatim>\<open>handleCalculateFees\<close> builds it.\<close>

record params =
  activityType :: string
  activitySubCategory :: string
  permitType :: string
  activityLevel :: string
  prescribedActivityId :: string

text \<open>The result of \<^verbatim>\<open>validateParameters\<close>.\<close>

record validation =
  isValid :: bool
  errors :: "string list"

text \<open>
  What \<^verbatim>\<open>await calculateFeesWithSupabase(params)\<close> can do: resolve to an object,
  resolve to a falsy value, or throw. A thrown value is an \<^verbatim>\<open>Error\<close> with its
  message, or anything else.
\<close>

datatype thrown = ErrorObj string | NonError

datatype hook_result = Resolved "fees option" | Rejected thrown

text \<open>The two object literals passed to \<^verbatim>\<open>onChange\<close>.\<close>

record full_patch =
  administration_fee :: rat
  composite_fee :: rat
  technical_fee :: rat
  total_fee :: rat
  fee_amount :: rat
  processing_days :: nat
  administration_form :: string
  technical_form :: string
  fee_source :: fee_source
  patch_calculatedFees :: fees
  fee_breakdown :: fees

record composite_patch =
  cp_composite_fee :: rat
  cp_total_fee :: rat
  cp_fee_amount :: rat
  cp_calculatedFees :: fees
  cp_fee_breakdown :: fees

text \<open>Calls that leave the component, in the order they are made.\<close>

datatype event =
    LookupCall params
  | OnChange full_patch
  | OnChangeComposite composite_patch

text \<open>
  The component's own state: three \<^verbatim>\<open>useState\<close> cells and the
  \<^verbatim>\<open>hasCalculatedOnce\<close> ref.
\<close>

record component_state =
  calculatedFees :: "fees option"
  calculationError :: string
  validationErrors :: "string list"
  hasCalculatedOnce :: bool

subsection \<open>JavaScript operators used by the component\<close>

text \<open>\<^verbatim>\<open>x || ''\<close> on an optional string.\<close>

definition or_empty :: "string option \<Rightarrow> string" where
  "or_empty x = (case x of None \<Rightarrow> [] | Some s \<Rightarrow> s)"

text \<open>\<^verbatim>\<open>s || d\<close> on a string: the empty string is falsy.\<close>

definition or_default :: "string \<Rightarrow> string \<Rightarrow> string" where
  "or_default s d = (if s = [] then d else s)"

text \<open>Truthiness of an optional string.\<close>

definition truthy :: "string option \<Rightarrow> bool" where
  "truthy x = (case x of None \<Rightarrow> False | Some s \<Rightarrow> s \<noteq> [])"

text \<open>\<^verbatim>\<open>x || 0\<close> on a number.\<close>

definition or_zero :: "rat \<Rightarrow> rat" where
  "or_zero x = (if x = 0 then 0 else x)"

text \<open>
  \<^verbatim>\<open>String.prototype.toLowerCase\<close> on the Latin-1 range that \<open>char\<close> covers:
  A to Z and the accented capitals (all of 192 to 222 but the multiplication sign 215)
  move up by 32, every other character stays.
\<close>

definition toLowerChar :: "char \<Rightarrow> char" where
  "toLowerChar c =
     (let n = (of_char c :: nat)
      in if (65 \<le> n \<and> n \<le> 90) \<or> (192 \<le> n \<and> n \<le> 222 \<and> n \<noteq> 215)
         then char_of (n + 32) else c)"

definition toLowerCase :: "string \<Rightarrow> string" where
  "toLowerCase s = map toLowerChar s"

subsection \<open>The component\<close>

definition ENVIRONMENTAL_PERMIT_TYPE_ID :: string where
  "ENVIRONMENTAL_PERMIT_TYPE_ID = ''1655df4b-bfcf-47de-85fa-c4567c749362''"

text \<open>
  \<^verbatim>\<open>data.permit_type?.toLowerCase() === 'environmental' || data.permit_type_id === '1655...'\<close>
\<close>

definition isEnvironmentalPermit :: "form_data \<Rightarrow> bool" where
  "isEnvironmentalPermit d =
     ((case permit_type d of None \<Rightarrow> False
                           | Some s \<Rightarrow> toLowerCase s = ''environmental'')
      \<or> permit_type_id d = Some ENVIRONMENTAL_PERMIT_TYPE_ID)"

definition COMPOSITE_FEE :: rat where
  "COMPOSITE_FEE = 2000"

text \<open>The \<^verbatim>\<open>params\<close> literal of \<^verbatim>\<open>handleCalculateFees\<close>.\<close>

definition buildParams :: "form_data \<Rightarrow> params" where
  "buildParams d =
     (let activityLevel' = or_empty (activity_level d);
          activityCategory = or_empty (activity_category d);
          activitySubcategory = or_empty (activity_subcategory d);
          prescribedActivityId' = or_empty (prescribed_activity_id d)
      in \<lparr> activityType = or_default activityCategory ''new'',
           activitySubCategory = or_default activitySubcategory ''general'',
           permitType = activityLevel',
           activityLevel = activityLevel',
           prescribedActivityId = prescribedActivityId' \<rparr>)"

text \<open>
  \<^verbatim>\<open>handleCalculateFees\<close>. The two functions of the hook are parameters. The result
  is the component state after the handler and the calls it made.
\<close>

definition handleCalculateFees ::
  "(params \<Rightarrow> validation) \<Rightarrow> (params \<Rightarrow> hook_result) \<Rightarrow> form_data
     \<Rightarrow> component_state \<Rightarrow> component_state \<times> event list" where
  "handleCalculateFees validateParameters calculateFeesWithSupabase d st =
     (let st1 = st\<lparr> calculationError := [], validationErrors := [] \<rparr>;
          ps = buildParams d;
          v = validateParameters ps
      in if \<not> isValid v then (st1\<lparr> validationErrors := errors v \<rparr>, [])
         else (case calculateFeesWithSupabase ps of
             Rejected e \<Rightarrow>
               (st1\<lparr> calculationError :=
                        (case e of ErrorObj m \<Rightarrow> m
                                 | NonError \<Rightarrow> ''Unknown error occurred'') \<rparr>,
                [LookupCall ps])
           | Resolved None \<Rightarrow> (st1, [LookupCall ps])
           | Resolved (Some f) \<Rightarrow>
               (let compositeFeeAmount = (if isEnvironmentalPermit d then COMPOSITE_FEE else 0);
                    totalWithComposite = totalFee f + compositeFeeAmount;
                    updatedFees = f\<lparr> compositeFee := Some compositeFeeAmount,
                                     totalFee := totalWithComposite \<rparr>
                in (st1\<lparr> calculatedFees := Some updatedFees, hasCalculatedOnce := True \<rparr>,
                    [LookupCall ps,
                     OnChange \<lparr> administration_fee = totalFee f,
                                composite_fee = compositeFeeAmount,
                                technical_fee = 0,
                                total_fee = totalWithComposite,
                                fee_amount = totalWithComposite,
                                processing_days = processingDays f,
                                administration_form = administrationForm f,
                                technical_form = technicalForm f,
                                fee_source = source f,
                                patch_calculatedFees = updatedFees,
                                fee_breakdown = updatedFees \<rparr>]))))"

text \<open>The first effect: auto-calculation when the component mounts.\<close>

definition hasRequiredParams :: "form_data \<Rightarrow> bool" where
  "hasRequiredParams d =
     (truthy (activity_level d) \<and> (truthy (activity_category d) \<or> truthy (activity_subcategory d)))"

definition autoCalculateOnMount ::
  "(params \<Rightarrow> validation) \<Rightarrow> (params \<Rightarrow> hook_result) \<Rightarrow> bool \<Rightarrow> form_data
     \<Rightarrow> component_state \<Rightarrow> component_state \<times> event list" where
  "autoCalculateOnMount validateParameters calculateFeesWithSupabase loading d st =
     (if hasRequiredParams d \<and> \<not> hasCalculatedOnce st \<and> \<not> loading
         \<and> data_calculatedFees d = None
      then handleCalculateFees validateParameters calculateFeesWithSupabase d st
      else (st, []))"

text \<open>The second effect: it runs when \<^verbatim>\<open>isEnvironmentalPermit\<close> changes.\<close>

definition permitTypeEffect :: "form_data \<Rightarrow> component_state \<Rightarrow> component_state \<times> event list" where
  "permitTypeEffect d st =
     (if \<not> hasCalculatedOnce st then (st, [])
      else (case calculatedFees st of
          None \<Rightarrow> (st, [])
        | Some cf \<Rightarrow>
            (let compositeFeeAmount = (if isEnvironmentalPermit d then COMPOSITE_FEE else 0);
                 baseFee = or_zero (administrationFee cf);
                 totalWithComposite = baseFee + compositeFeeAmount;
                 updatedFees = cf\<lparr> compositeFee := Some compositeFeeAmount,
                                   totalFee := totalWithComposite \<rparr>
             in (st\<lparr> calculatedFees := Some updatedFees \<rparr>,
                 [OnChangeComposite \<lparr> cp_composite_fee = compositeFeeAmount,
                                      cp_total_fee = totalWithComposite,
                                      cp_fee_amount = totalWithComposite,
                                      cp_calculatedFees = updatedFees,
                                      cp_fee_breakdown = updatedFees \<rparr>]))))"

text \<open>The state of a freshly mounted component: \<^verbatim>\<open>useState(data.calculatedFees || null)\<close>.\<close>

definition initialState :: "form_data \<Rightarrow> component_state" where
  "initialState d =
     \<lparr> calculatedFees = data_calculatedFees d, calculationError = [],
       validationErrors = [], hasCalculatedOnce = False \<rparr>"





subsection \<open>The fee hook, from its specification\<close>

text \<open>
  The hook module \<^verbatim>\<open>@/hooks/useFeeCalculation\<close> is not among the sources. The
  definitions of this subsection follow the written specification of the engine
  (validator, resolver, pro-rated formula); the component above does not depend on them.
\<close>

text \<open>
  Modelled from the spec: the configuration constants of the missing hook. The default
  annual recurrent fee, the default processing-day allowance and the form identifiers
  are not given a value by the specification, so they are fields of a configuration.
\<close>

record engine_config =
  defaultAnnualRecurrentFee :: rat
  defaultProcessingDays :: nat
  administrationFormId :: string
  technicalFormId :: string

text \<open>
  Modelled from the spec: the system of record behind the missing hook, as its two
  lookups: by prescribed-activity identifier, and by activity level with activity type
  and sub-category. A miss, or an unreachable store, is \<open>None\<close>.
\<close>

record system_of_record =
  byPrescribedActivity :: "string \<Rightarrow> rat option"
  byClassification :: "string \<times> string \<times> string \<Rightarrow> rat option"

text \<open>Modelled from the spec: the FeeSchedule record that the missing resolver returns.\<close>

record fee_schedule =
  annualRecurrentFee :: rat
  scheduleProcessingDays :: nat
  scheduleSource :: fee_source

text \<open>
  Modelled from the spec: the missing \<^verbatim>\<open>validateParameters\<close> (section 4.1). The
  activity level must be non-empty (error "Activity level is required"); activity type
  and sub-category must not both be empty. The specification gives no text for the
  second error.
\<close>

definition validate :: "params \<Rightarrow> validation" where
  "validate p =
     (let errs = (if activityLevel p = [] then [''Activity level is required''] else [])
               @ (if activityType p = [] \<and> activitySubCategory p = []
                  then [''Activity type or sub-category is required''] else [])
      in \<lparr> isValid = (errs = []), errors = errs \<rparr>)"

text \<open>
  Modelled from the spec: the statutory processing-day table of the missing resolver
  (section 4.2, step 4), with an explicit default branch.
\<close>

definition statutoryProcessingDays :: "engine_config \<Rightarrow> string \<Rightarrow> nat" where
  "statutoryProcessingDays cfg level =
     (if level = ''2.1'' then 30
      else if level = ''2.2'' \<or> level = ''2.3'' \<or> level = ''2.4'' then 60
      else if level = ''3'' then 90
      else defaultProcessingDays cfg)"

text \<open>
  Modelled from the spec: the missing resolver (section 4.2, steps 1 to 4). It never
  fails: when both lookups miss it returns the default schedule, marked \<open>Default\<close>.
\<close>

definition resolve :: "engine_config \<Rightarrow> system_of_record \<Rightarrow> params \<Rightarrow> fee_schedule" where
  "resolve cfg db p =
     (let days = statutoryProcessingDays cfg (activityLevel p);
          byId = (if prescribedActivityId p = [] then None
                  else byPrescribedActivity db (prescribedActivityId p))
      in case byId of
           Some fee \<Rightarrow> \<lparr> annualRecurrentFee = fee, scheduleProcessingDays = days,
                         scheduleSource = Database \<rparr>
         | None \<Rightarrow>
             (case byClassification db (activityLevel p, activityType p, activitySubCategory p) of
                Some fee \<Rightarrow> \<lparr> annualRecurrentFee = fee, scheduleProcessingDays = days,
                              scheduleSource = Database \<rparr>
              | None \<Rightarrow> \<lparr> annualRecurrentFee = defaultAnnualRecurrentFee cfg,
                          scheduleProcessingDays = days, scheduleSource = Default \<rparr>))"

text \<open>
  Modelled from the spec: the rounding of the missing formula (section 4.3), to two
  decimal places with halves upwards.
\<close>

definition roundHalfUp2 :: "rat \<Rightarrow> rat" where
  "roundHalfUp2 x = of_int \<lfloor>x * 100 + 1 / 2\<rfloor> / 100"

text \<open>
  Modelled from the spec: the missing pro-rated formula (section 4.3),
  \<^verbatim>\<open>(annualRecurrentFee / 365) * processingDays\<close> rounded half-up to two decimals.
\<close>

definition computeAdministrationFee :: "fee_schedule \<Rightarrow> rat" where
  "computeAdministrationFee sch =
     roundHalfUp2 (annualRecurrentFee sch / 365 * of_nat (scheduleProcessingDays sch))"

text \<open>
  Modelled from the spec: the missing \<^verbatim>\<open>calculateFeesWithSupabase\<close>, as resolver
  followed by formula. It returns the breakdown before the composite rule: no technical
  fee, and a total equal to the administration fee.
\<close>

definition calculateFeesFromSpec :: "engine_config \<Rightarrow> system_of_record \<Rightarrow> params \<Rightarrow> hook_result" where
  "calculateFeesFromSpec cfg db p =
     (let sch = resolve cfg db p;
          fee = computeAdministrationFee sch
      in Resolved (Some \<lparr> administrationFee = fee, technicalFee = 0, totalFee = fee,
                           processingDays = scheduleProcessingDays sch,
                           administrationForm = administrationFormId cfg,
                           technicalForm = technicalFormId cfg,
                           source = scheduleSource sch,
                           compositeFee = None \<rparr>))"

subsection \<open>Notions used to state the properties\<close>


text \<open>
  The permit-type effect run once for each draft of a list, in order: the draft changes
  between runs, the component state is carried along.
\<close>

definition retoggle :: "form_data list \<Rightarrow> component_state \<Rightarrow> component_state" where
  "retoggle ds st = foldl (\<lambda>s d. fst (permitTypeEffect d s)) st ds"

text \<open>
  A casing of a lower-case word: the letters at the positions marked \<open>True\<close> are
  capitalised.
\<close>

definition toUpperAscii :: "char \<Rightarrow> char" where
  "toUpperAscii c =
     (let n = (of_char c :: nat) in if 97 \<le> n \<and> n \<le> 122 then char_of (n - 32) else c)"

definition withCasing :: "bool list \<Rightarrow> string \<Rightarrow> string" where
  "withCasing bs w = map (\<lambda>(b, c). if b then toUpperAscii c else c) (zip bs w)"

text \<open>The composite amount both code paths compute from the draft.\<close>

definition compositeFor :: "form_data \<Rightarrow> rat" where
  "compositeFor d = (if isEnvironmentalPermit d then COMPOSITE_FEE else 0)"

subsection \<open>Concrete inputs\<close>

definition exampleConfig :: engine_config where
  "exampleConfig =
     \<lparr> defaultAnnualRecurrentFee = 5000, defaultProcessingDays = 90,
       administrationFormId = ''administration-form'', technicalFormId = ''technical-form'' \<rparr>"

text \<open>A system of record with one prescribed activity, of annual recurrent fee 36500.\<close>

definition exampleRecords :: system_of_record where
  "exampleRecords =
     \<lparr> byPrescribedActivity = (\<lambda>k. if k = ''pa-1'' then Some 36500 else None),
       byClassification = (\<lambda>k. None) \<rparr>"

text \<open>A draft at level 2.1 for that activity, with a permit type other than Environmental.\<close>

definition exampleDraft :: form_data where
  "exampleDraft =
     \<lparr> permit_type = Some ''Water Use'', permit_type_id = None,
       activity_level = Some ''2.1'', activity_category = Some ''mining'',
       activity_subcategory = None, prescribed_activity_id = Some ''pa-1'',
       data_calculatedFees = None \<rparr>"

text \<open>The same draft with neither activity category nor sub-category.\<close>

definition uncategorisedDraft :: form_data where
  "uncategorisedDraft = exampleDraft\<lparr> activity_category := None, activity_subcategory := Some [] \<rparr>"


text \<open>A lookup that resolves to a breakdown with a technical fee inside its total.\<close>

definition technicalFeeBreakdown :: fees where
  "technicalFeeBreakdown =
     \<lparr> administrationFee = 100, technicalFee = 50, totalFee = 150, processingDays = 30,
       administrationForm = ''administration-form'', technicalForm = ''technical-form'',
       source = Database, compositeFee = None \<rparr>"

definition technicalFeeLookup :: "params \<Rightarrow> hook_result" where
  "technicalFeeLookup p = Resolved (Some technicalFeeBreakdown)"

text \<open>A lookup that throws.\<close>

definition failingLookup :: "params \<Rightarrow> hook_result" where
  "failingLookup p = Rejected (ErrorObj ''Failed to fetch'')"

text \<open>The example draft with the Environmental permit type selected.\<close>

definition environmentalDraft :: form_data where
  "environmentalDraft = exampleDraft\<lparr> permit_type := Some ''Environmental'' \<rparr>"

text \<open>The breakdown the specified hook returns for the example draft.\<close>

definition exampleBreakdown :: fees where
  "exampleBreakdown =
     \<lparr> administrationFee = 3000, technicalFee = 0, totalFee = 3000, processingDays = 30,
       administrationForm = ''administration-form'', technicalForm = ''technical-form'',
       source = Database, compositeFee = None \<rparr>"

text \<open>
  The component state after a first computation stored the example breakdown, and the
  state of a component mounted later on a draft that carries the same breakdown.
\<close>

definition computedState :: component_state where
  "computedState =
     \<lparr> calculatedFees = Some (exampleBreakdown\<lparr> compositeFee := Some 0 \<rparr>),
       calculationError = [], validationErrors = [], hasCalculatedOnce = True \<rparr>"

definition cachedDraft :: form_data where
  "cachedDraft = exampleDraft\<lparr> data_calculatedFees := Some (exampleBreakdown\<lparr> compositeFee := Some 0 \<rparr>) \<rparr>"

text \<open>A request with neither activity type nor sub-category.\<close>

definition uncategorisedRequest :: params where
  "uncategorisedRequest =
     \<lparr> activityType = [], activitySubCategory = [], permitType = ''2.1'',
       activityLevel = ''2.1'', prescribedActivityId = ''pa-1'' \<rparr>"

section \<open>Properties\<close>

subsection \<open>The handler and the effects, case by case\<close>

lemma buildParams_simps:
  "activityType (buildParams d) = or_default (or_empty (activity_category d)) ''new''"
  "activitySubCategory (buildParams d) = or_default (or_empty (activity_subcategory d)) ''general''"
  "permitType (buildParams d) = or_empty (activity_level d)"
  "activityLevel (buildParams d) = or_empty (activity_level d)"
  "prescribedActivityId (buildParams d) = or_empty (prescribed_activity_id d)"
  by (simp_all add: buildParams_def Let_def)

lemma handle_invalid:
  "\<not> isValid (vp (buildParams d)) \<Longrightarrow>
   handleCalculateFees vp hook d st =
     (st\<lparr> calculationError := [], validationErrors := errors (vp (buildParams d)) \<rparr>, [])"
  by (simp add: handleCalculateFees_def Let_def)

lemma handle_rejected:
  "isValid (vp (buildParams d)) \<Longrightarrow> hook (buildParams d) = Rejected e \<Longrightarrow>
   handleCalculateFees vp hook d st =
     (st\<lparr> calculationError := (case e of ErrorObj m \<Rightarrow> m | NonError \<Rightarrow> ''Unknown error occurred''),
          validationErrors := [] \<rparr>, [LookupCall (buildParams d)])"
  by (simp add: handleCalculateFees_def Let_def)

lemma handle_falsy:
  "isValid (vp (buildParams d)) \<Longrightarrow> hook (buildParams d) = Resolved None \<Longrightarrow>
   handleCalculateFees vp hook d st =
     (st\<lparr> calculationError := [], validationErrors := [] \<rparr>, [LookupCall (buildParams d)])"
  by (simp add: handleCalculateFees_def Let_def)

lemma handle_resolved:
  "isValid (vp (buildParams d)) \<Longrightarrow> hook (buildParams d) = Resolved (Some f) \<Longrightarrow>
   handleCalculateFees vp hook d st =
     (st\<lparr> calculationError := [], validationErrors := [],
          calculatedFees := Some (f\<lparr> compositeFee := Some (compositeFor d),
                                     totalFee := totalFee f + compositeFor d \<rparr>),
          hasCalculatedOnce := True \<rparr>,
      [LookupCall (buildParams d),
       OnChange \<lparr> administration_fee = totalFee f,
                  composite_fee = compositeFor d,
                  technical_fee = 0,
                  total_fee = totalFee f + compositeFor d,
                  fee_amount = totalFee f + compositeFor d,
                  processing_days = processingDays f,
                  administration_form = administrationForm f,
                  technical_form = technicalForm f,
                  fee_source = source f,
                  patch_calculatedFees = f\<lparr> compositeFee := Some (compositeFor d),
                                     totalFee := totalFee f + compositeFor d \<rparr>,
                  fee_breakdown = f\<lparr> compositeFee := Some (compositeFor d),
                                     totalFee := totalFee f + compositeFor d \<rparr> \<rparr>])"
  by (simp add: handleCalculateFees_def Let_def compositeFor_def)

lemma effect_active:
  "hasCalculatedOnce st \<Longrightarrow> calculatedFees st = Some cf \<Longrightarrow>
   permitTypeEffect d st =
     (st\<lparr> calculatedFees := Some (cf\<lparr> compositeFee := Some (compositeFor d),
                                      totalFee := administrationFee cf + compositeFor d \<rparr>) \<rparr>,
      [OnChangeComposite \<lparr> cp_composite_fee = compositeFor d,
                           cp_total_fee = administrationFee cf + compositeFor d,
                           cp_fee_amount = administrationFee cf + compositeFor d,
                           cp_calculatedFees = cf\<lparr> compositeFee := Some (compositeFor d),
                                      totalFee := administrationFee cf + compositeFor d \<rparr>,
                           cp_fee_breakdown = cf\<lparr> compositeFee := Some (compositeFor d),
                                      totalFee := administrationFee cf + compositeFor d \<rparr> \<rparr>])"
  by (simp add: permitTypeEffect_def Let_def compositeFor_def or_zero_def)

lemma effect_idle:
  "\<not> hasCalculatedOnce st \<or> calculatedFees st = None \<Longrightarrow> permitTypeEffect d st = (st, [])"
  by (auto simp add: permitTypeEffect_def)

lemma effect_absorbs:
  "permitTypeEffect d2 (fst (permitTypeEffect d1 st)) = permitTypeEffect d2 st"
proof (cases "hasCalculatedOnce st \<and> calculatedFees st \<noteq> None")
  case True
  then obtain cf where cf: "calculatedFees st = Some cf" and h: "hasCalculatedOnce st" by auto
  show ?thesis
    unfolding effect_active [OF h cf, of d1]
    by (simp add: permitTypeEffect_def h cf Let_def)
next
  case False
  then show ?thesis by (simp add: effect_idle)
qed

lemma retoggle_snoc: "retoggle (ds @ [d]) st = fst (permitTypeEffect d st)"
proof (induction ds arbitrary: d rule: rev_induct)
  case Nil
  then show ?case by (simp add: retoggle_def)
next
  case (snoc x xs)
  have "retoggle ((xs @ [x]) @ [d]) st = fst (permitTypeEffect d (retoggle (xs @ [x]) st))"
    by (simp add: retoggle_def)
  also have "\<dots> = fst (permitTypeEffect d (fst (permitTypeEffect x st)))"
    using snoc [of x] by simp
  also have "\<dots> = fst (permitTypeEffect d st)"
    by (simp add: effect_absorbs)
  finally show ?case .
qed

lemma retoggle_last_patch:
  "snd (permitTypeEffect d (retoggle ds st)) = snd (permitTypeEffect d st)"
proof (cases ds rule: rev_cases)
  case Nil
  then show ?thesis by (simp add: retoggle_def)
next
  case (snoc xs x)
  then show ?thesis by (simp add: retoggle_snoc effect_absorbs)
qed

lemma buildParams_never_uncategorised:
  "activityType (buildParams d) \<noteq> [] \<and> activitySubCategory (buildParams d) \<noteq> []"
  by (simp add: buildParams_simps or_default_def)

lemma mount_idle:
  "\<not> hasRequiredParams d \<or> hasCalculatedOnce st \<or> loading \<or> data_calculatedFees d \<noteq> None \<Longrightarrow>
   autoCalculateOnMount vp hook loading d st = (st, [])"
  by (auto simp add: autoCalculateOnMount_def)

lemma mount_active:
  "hasRequiredParams d \<Longrightarrow> \<not> hasCalculatedOnce st \<Longrightarrow> \<not> loading \<Longrightarrow> data_calculatedFees d = None \<Longrightarrow>
   autoCalculateOnMount vp hook loading d st = handleCalculateFees vp hook d st"
  by (simp add: autoCalculateOnMount_def)

lemma handle_events_stateless:
  "snd (handleCalculateFees vp hook d st) = snd (handleCalculateFees vp hook d st')"
  by (simp add: handleCalculateFees_def Let_def split: hook_result.splits option.splits)

lemma handle_errors_stateless:
  "calculationError (fst (handleCalculateFees vp hook d st))
     = calculationError (fst (handleCalculateFees vp hook d st'))"
  "validationErrors (fst (handleCalculateFees vp hook d st))
     = validationErrors (fst (handleCalculateFees vp hook d st'))"
  by (simp_all add: handleCalculateFees_def Let_def split: hook_result.splits option.splits)

subsection \<open>The specified hook\<close>

lemma roundHalfUp2_bounds:
  "roundHalfUp2 x - 1 / 200 \<le> x \<and> x < roundHalfUp2 x + 1 / 200"
proof -
  let ?k = "\<lfloor>x * 100 + 1 / 2\<rfloor>"
  have l: "of_int ?k \<le> x * 100 + 1 / 2" by (rule of_int_floor_le)
  have u: "x * 100 + 1 / 2 < of_int ?k + 1" by linarith
  have r: "roundHalfUp2 x = of_int ?k / 100" by (simp add: roundHalfUp2_def)
  from l have "of_int ?k / 100 - 1 / 200 \<le> x" by (simp add: field_simps)
  moreover from u have "x < of_int ?k / 100 + 1 / 200" by (simp add: field_simps)
  ultimately show ?thesis unfolding r by simp
qed

lemma scheduleProcessingDays_resolve:
  "scheduleProcessingDays (resolve cfg db p) = statutoryProcessingDays cfg (activityLevel p)"
  by (simp add: resolve_def Let_def split: option.splits)


subsection \<open>Lower-casing\<close>

lemma toLowerChar_toUpperAscii:
  assumes "97 \<le> (of_char c :: nat)" "(of_char c :: nat) \<le> 122"
  shows "toLowerChar (toUpperAscii c) = c"
proof -
  let ?n = "of_char c :: nat"
  have r: "65 \<le> ?n - 32" "?n - 32 \<le> 90" using assms by arith+
  have m: "(?n - 32) mod 256 = ?n - 32" using assms by simp
  have u: "toUpperAscii c = char_of (?n - 32)"
    using assms by (simp add: toUpperAscii_def Let_def)
  have o: "(of_char (char_of (?n - 32) :: char) :: nat) = ?n - 32"
    using m by simp
  have b: "?n - 32 + 32 = ?n" using assms by arith
  have "toLowerChar (char_of (?n - 32)) = char_of (?n - 32 + 32)"
    unfolding toLowerChar_def Let_def o using r by simp
  also have "\<dots> = c" unfolding b by simp
  finally show ?thesis using u by simp
qed

lemma toLowerChar_lower:
  assumes "97 \<le> (of_char c :: nat)" "(of_char c :: nat) \<le> 122"
  shows "toLowerChar c = c"
  using assms by (simp add: toLowerChar_def Let_def)

lemma toLowerCase_withCasing:
  "length bs = length w \<Longrightarrow> \<forall>c\<in>set w. 97 \<le> (of_char c :: nat) \<and> (of_char c :: nat) \<le> 122
     \<Longrightarrow> toLowerCase (withCasing bs w) = w"
proof (induction bs w rule: list_induct2)
  case Nil
  then show ?case by (simp add: toLowerCase_def withCasing_def)
next
  case (Cons b bs c w)
  then show ?case
    by (simp add: toLowerCase_def withCasing_def toLowerChar_toUpperAscii toLowerChar_lower)
qed

lemma length_toLowerCase: "length (toLowerCase s) = length s"
  by (simp add: toLowerCase_def)

lemma environmental_lower: "\<forall>c\<in>set ''environmental''. 97 \<le> (of_char c :: nat) \<and> (of_char c :: nat) \<le> 122"
  by simp

subsection \<open>Facts about the concrete inputs\<close>

lemma validate_exampleDraft: "isValid (validate (buildParams exampleDraft))"
  by (simp add: validate_def buildParams_simps exampleDraft_def or_empty_def or_default_def)

lemma spec_lookup_exampleDraft:
  "calculateFeesFromSpec exampleConfig exampleRecords (buildParams exampleDraft) = Resolved (Some exampleBreakdown)"
  by code_simp

lemma technical_lookup_exampleDraft:
  "technicalFeeLookup (buildParams exampleDraft) = Resolved (Some technicalFeeBreakdown)"
  by (simp add: technicalFeeLookup_def)

lemma exampleDraft_not_environmental: "\<not> isEnvironmentalPermit exampleDraft"
  by (simp add: isEnvironmentalPermit_def exampleDraft_def toLowerCase_def ENVIRONMENTAL_PERMIT_TYPE_ID_def)

lemma environmentalDraft_environmental: "isEnvironmentalPermit environmentalDraft"
  by code_simp


lemma mount_exampleDraft:
  "autoCalculateOnMount validate (calculateFeesFromSpec exampleConfig exampleRecords) False
     exampleDraft (initialState exampleDraft)
   = (computedState,
      [LookupCall (buildParams exampleDraft),
       OnChange \<lparr> administration_fee = 3000, composite_fee = 0, technical_fee = 0,
                  total_fee = 3000, fee_amount = 3000, processing_days = 30,
                  administration_form = ''administration-form'',
                  technical_form = ''technical-form'', fee_source = Database,
                  patch_calculatedFees = exampleBreakdown\<lparr> compositeFee := Some 0 \<rparr>,
                  fee_breakdown = exampleBreakdown\<lparr> compositeFee := Some 0 \<rparr> \<rparr>])"
proof -
  have g: "hasRequiredParams exampleDraft" "\<not> hasCalculatedOnce (initialState exampleDraft)"
    "data_calculatedFees exampleDraft = None"
    by (simp_all add: hasRequiredParams_def exampleDraft_def truthy_def initialState_def)
  have "autoCalculateOnMount validate (calculateFeesFromSpec exampleConfig exampleRecords) False
          exampleDraft (initialState exampleDraft)
        = handleCalculateFees validate (calculateFeesFromSpec exampleConfig exampleRecords)
            exampleDraft (initialState exampleDraft)"
    using g by (simp add: mount_active)
  also have "\<dots> = (computedState,
      [LookupCall (buildParams exampleDraft),
       OnChange \<lparr> administration_fee = 3000, composite_fee = 0, technical_fee = 0,
                  total_fee = 3000, fee_amount = 3000, processing_days = 30,
                  administration_form = ''administration-form'',
                  technical_form = ''technical-form'', fee_source = Database,
                  patch_calculatedFees = exampleBreakdown\<lparr> compositeFee := Some 0 \<rparr>,
                  fee_breakdown = exampleBreakdown\<lparr> compositeFee := Some 0 \<rparr> \<rparr>])"
    unfolding handle_resolved [where vp = validate
          and hook = "calculateFeesFromSpec exampleConfig exampleRecords"
          and d = exampleDraft and f = exampleBreakdown,
          OF validate_exampleDraft spec_lookup_exampleDraft]
    using g
    by (simp add: compositeFor_def exampleDraft_not_environmental exampleBreakdown_def
        computedState_def initialState_def)
  finally show ?thesis .
qed




section \<open>The claims\<close>

subsection \<open>C1: the total of a breakdown\<close>



subsection \<open>C2: the composite fee is 0 or 2000\<close>

text \<open>
  C2. Whatever breakdown the lookup resolves to (so whatever annual fee and processing
  days lie behind it), the composite fee stored by a successful computation is 2000
  when the draft's permit type is the Environmental one and 0 otherwise; the same holds
  after a recomputation on a permit-type change.
\<close>

theorem composite_fee_is_flat:
  "(isValid (validateParameters (buildParams d))
      \<and> calculateFeesWithSupabase (buildParams d) = Resolved (Some f)
      \<longrightarrow> map_option compositeFee
            (calculatedFees (fst (handleCalculateFees validateParameters calculateFeesWithSupabase d st)))
          = Some (Some (if isEnvironmentalPermit d then 2000 else 0)))
   \<and> (hasCalculatedOnce st \<and> calculatedFees st = Some cf
      \<longrightarrow> map_option compositeFee (calculatedFees (fst (permitTypeEffect d st)))
          = Some (Some (if isEnvironmentalPermit d then 2000 else 0)))"
  by (simp add: handle_resolved effect_active compositeFor_def COMPOSITE_FEE_def)

text \<open>The two cases of C2 at the example draft and its Environmental variant.\<close>

theorem composite_fee_is_flat_witness:
  "isValid (validate (buildParams exampleDraft))
   \<and> technicalFeeLookup (buildParams exampleDraft) = Resolved (Some technicalFeeBreakdown)
   \<and> map_option compositeFee
        (calculatedFees (fst (handleCalculateFees validate technicalFeeLookup exampleDraft
           (initialState exampleDraft)))) = Some (Some 0)
   \<and> hasCalculatedOnce computedState
   \<and> map_option compositeFee (calculatedFees (fst (permitTypeEffect environmentalDraft computedState)))
       = Some (Some 2000)"
proof -
  have h: "hasCalculatedOnce computedState"
    and c: "calculatedFees computedState = Some (exampleBreakdown\<lparr> compositeFee := Some 0 \<rparr>)"
    by (simp_all add: computedState_def)
  show ?thesis
    using composite_fee_is_flat [where validateParameters = validate
        and calculateFeesWithSupabase = technicalFeeLookup and d = exampleDraft
        and f = technicalFeeBreakdown and st = "initialState exampleDraft"]
      composite_fee_is_flat [where d = environmentalDraft and st = computedState
        and cf = "exampleBreakdown\<lparr> compositeFee := Some 0 \<rparr>"]
      validate_exampleDraft technical_lookup_exampleDraft exampleDraft_not_environmental
      environmentalDraft_environmental h c
    by simp
qed

subsection \<open>C3: the pro-rated administration fee\<close>

text \<open>
  C3. The administration fee of a schedule is a whole number of hundredths and lies
  within half a hundredth of \<^verbatim>\<open>(annualRecurrentFee / 365) * processingDays\<close>, the
  upper half excluded: it is that amount rounded to two decimals, halves upwards. For
  an annual recurrent fee of 36500 at level "2.1" (30 processing days) and a permit type
  other than Environmental, the component stores administration fee 3000, composite
  fee 0 and total 3000.
\<close>

theorem administration_fee_prorated:
  "(\<exists>k::int. computeAdministrationFee sch = of_int k / 100)
   \<and> computeAdministrationFee sch - 1 / 200
        \<le> annualRecurrentFee sch / 365 * of_nat (scheduleProcessingDays sch)
   \<and> annualRecurrentFee sch / 365 * of_nat (scheduleProcessingDays sch)
        < computeAdministrationFee sch + 1 / 200
   \<and> resolve exampleConfig exampleRecords (buildParams exampleDraft)
        = \<lparr> annualRecurrentFee = 36500, scheduleProcessingDays = 30, scheduleSource = Database \<rparr>
   \<and> computeAdministrationFee
        \<lparr> annualRecurrentFee = 36500, scheduleProcessingDays = 30, scheduleSource = Database \<rparr> = 3000
   \<and> \<not> isEnvironmentalPermit exampleDraft
   \<and> calculatedFees (fst (handleCalculateFees validate
         (calculateFeesFromSpec exampleConfig exampleRecords) exampleDraft (initialState exampleDraft)))
        = Some \<lparr> administrationFee = 3000, technicalFee = 0, totalFee = 3000, processingDays = 30,
                 administrationForm = ''administration-form'', technicalForm = ''technical-form'',
                 source = Database, compositeFee = Some 0 \<rparr>"
proof (intro conjI)
  show "\<exists>k::int. computeAdministrationFee sch = of_int k / 100"
    by (auto simp add: computeAdministrationFee_def roundHalfUp2_def)
  show "computeAdministrationFee sch - 1 / 200
        \<le> annualRecurrentFee sch / 365 * of_nat (scheduleProcessingDays sch)"
    unfolding computeAdministrationFee_def using roundHalfUp2_bounds by blast
  show "annualRecurrentFee sch / 365 * of_nat (scheduleProcessingDays sch)
        < computeAdministrationFee sch + 1 / 200"
    unfolding computeAdministrationFee_def using roundHalfUp2_bounds by blast
  show "resolve exampleConfig exampleRecords (buildParams exampleDraft)
        = \<lparr> annualRecurrentFee = 36500, scheduleProcessingDays = 30, scheduleSource = Database \<rparr>"
    by code_simp
  show "computeAdministrationFee
        \<lparr> annualRecurrentFee = 36500, scheduleProcessingDays = 30, scheduleSource = Database \<rparr> = 3000"
    by code_simp
  show "\<not> isEnvironmentalPermit exampleDraft" by (rule exampleDraft_not_environmental)
  show "calculatedFees (fst (handleCalculateFees validate
         (calculateFeesFromSpec exampleConfig exampleRecords) exampleDraft (initialState exampleDraft)))
        = Some \<lparr> administrationFee = 3000, technicalFee = 0, totalFee = 3000, processingDays = 30,
                 administrationForm = ''administration-form'', technicalForm = ''technical-form'',
                 source = Database, compositeFee = Some 0 \<rparr>"
    using validate_exampleDraft spec_lookup_exampleDraft
    by (simp add: handle_resolved [where vp = validate
          and hook = "calculateFeesFromSpec exampleConfig exampleRecords"
          and d = exampleDraft and f = exampleBreakdown]
        compositeFor_def exampleDraft_not_environmental exampleBreakdown_def)
qed

subsection \<open>C4: processing days depend on the activity level alone\<close>

text \<open>
  C4. The processing days are 30 for level "2.1", 60 for levels "2.2", "2.3" and "2.4",
  90 for level "3" and the configured default for every other level; they are always
  one of 30, 60, 90 and the default, and positive when the default is. The resolver's
  schedule and the hook's breakdown carry that value whatever the system of record
  holds: two requests of the same level get the same days from any two stores.
\<close>

theorem processing_days_from_level:
  "statutoryProcessingDays cfg ''2.1'' = 30
   \<and> statutoryProcessingDays cfg ''2.2'' = 60
   \<and> statutoryProcessingDays cfg ''2.3'' = 60
   \<and> statutoryProcessingDays cfg ''2.4'' = 60
   \<and> statutoryProcessingDays cfg ''3'' = 90
   \<and> (level \<notin> {''2.1'', ''2.2'', ''2.3'', ''2.4'', ''3''}
        \<longrightarrow> statutoryProcessingDays cfg level = defaultProcessingDays cfg)
   \<and> statutoryProcessingDays cfg level \<in> {30, 60, 90, defaultProcessingDays cfg}
   \<and> (0 < defaultProcessingDays cfg \<longrightarrow> 0 < statutoryProcessingDays cfg level)
   \<and> scheduleProcessingDays (resolve cfg db p) = statutoryProcessingDays cfg (activityLevel p)
   \<and> (activityLevel p = activityLevel q
        \<longrightarrow> scheduleProcessingDays (resolve cfg db p) = scheduleProcessingDays (resolve cfg db' q))
   \<and> (calculateFeesFromSpec cfg db p = Resolved (Some f)
        \<longrightarrow> processingDays f = statutoryProcessingDays cfg (activityLevel p))"
proof (intro conjI impI)
  show "statutoryProcessingDays cfg ''2.1'' = 30" "statutoryProcessingDays cfg ''2.2'' = 60"
    "statutoryProcessingDays cfg ''2.3'' = 60" "statutoryProcessingDays cfg ''2.4'' = 60"
    "statutoryProcessingDays cfg ''3'' = 90"
    by (simp_all add: statutoryProcessingDays_def)
  show "statutoryProcessingDays cfg level \<in> {30, 60, 90, defaultProcessingDays cfg}"
    by (simp add: statutoryProcessingDays_def)
  show "scheduleProcessingDays (resolve cfg db p) = statutoryProcessingDays cfg (activityLevel p)"
    by (rule scheduleProcessingDays_resolve)
next
  assume "level \<notin> {''2.1'', ''2.2'', ''2.3'', ''2.4'', ''3''}"
  then show "statutoryProcessingDays cfg level = defaultProcessingDays cfg"
    by (simp add: statutoryProcessingDays_def)
next
  assume "0 < defaultProcessingDays cfg"
  then show "0 < statutoryProcessingDays cfg level"
    by (simp add: statutoryProcessingDays_def)
next
  assume "activityLevel p = activityLevel q"
  then show "scheduleProcessingDays (resolve cfg db p) = scheduleProcessingDays (resolve cfg db' q)"
    by (simp add: scheduleProcessingDays_resolve)
next
  assume "calculateFeesFromSpec cfg db p = Resolved (Some f)"
  then have "f = \<lparr> administrationFee = computeAdministrationFee (resolve cfg db p), technicalFee = 0,
                   totalFee = computeAdministrationFee (resolve cfg db p),
                   processingDays = scheduleProcessingDays (resolve cfg db p),
                   administrationForm = administrationFormId cfg,
                   technicalForm = technicalFormId cfg,
                   source = scheduleSource (resolve cfg db p),
                   compositeFee = None \<rparr>"
    by (simp add: calculateFeesFromSpec_def Let_def)
  then have "processingDays f = scheduleProcessingDays (resolve cfg db p)" by simp
  then show "processingDays f = statutoryProcessingDays cfg (activityLevel p)"
    by (simp add: scheduleProcessingDays_resolve)
qed

text \<open>
  C4 at an unlisted level with the default of 90 days, and at two requests of level
  "2.1" resolved against the example store and against an empty one.
\<close>

theorem processing_days_from_level_witness:
  "''4'' \<notin> {''2.1'', ''2.2'', ''2.3'', ''2.4'', ''3''}
   \<and> 0 < defaultProcessingDays exampleConfig
   \<and> statutoryProcessingDays exampleConfig ''4'' = 90
   \<and> 0 < statutoryProcessingDays exampleConfig ''4''
   \<and> activityLevel (buildParams exampleDraft) = activityLevel (buildParams uncategorisedDraft)
   \<and> scheduleProcessingDays (resolve exampleConfig exampleRecords (buildParams exampleDraft))
       = scheduleProcessingDays (resolve exampleConfig
           \<lparr> byPrescribedActivity = (\<lambda>k. None), byClassification = (\<lambda>k. None) \<rparr>
           (buildParams uncategorisedDraft))
   \<and> calculateFeesFromSpec exampleConfig exampleRecords (buildParams exampleDraft)
       = Resolved (Some exampleBreakdown)
   \<and> processingDays exampleBreakdown = statutoryProcessingDays exampleConfig ''2.1''"
proof -
  have d: "defaultProcessingDays exampleConfig = 90" by (simp add: exampleConfig_def)
  have l: "activityLevel (buildParams exampleDraft) = ''2.1''"
    "activityLevel (buildParams uncategorisedDraft) = ''2.1''"
    by (simp_all add: buildParams_simps exampleDraft_def uncategorisedDraft_def or_empty_def)
  show ?thesis
    using processing_days_from_level [where cfg = exampleConfig and level = "''4''"
        and db = exampleRecords and p = "buildParams exampleDraft"
        and q = "buildParams uncategorisedDraft"
        and db' = "\<lparr> byPrescribedActivity = (\<lambda>k. None), byClassification = (\<lambda>k. None) \<rparr>"
        and f = exampleBreakdown]
      d l spec_lookup_exampleDraft
    by simp
qed

subsection \<open>C5: recomputation does not accumulate\<close>

text \<open>
  C5. Running the permit-type effect for any sequence of drafts and then for a draft
  \<open>d\<close> leaves the component in the state that running it once for \<open>d\<close> gives, and
  passes the same object to \<^verbatim>\<open>onChange\<close> at the last run. When a breakdown is
  stored after a first computation, the result keeps its administration fee, has
  composite fee 2000 or 0 according to \<open>d\<close> alone, and has as total the
  administration fee plus that amount.
\<close>

theorem retoggle_no_accumulation:
  "retoggle (ds @ [d]) st = fst (permitTypeEffect d st)
   \<and> snd (permitTypeEffect d (retoggle ds st)) = snd (permitTypeEffect d st)
   \<and> (hasCalculatedOnce st \<and> calculatedFees st = Some cf \<longrightarrow>
        calculatedFees (retoggle (ds @ [d]) st)
          = Some (cf\<lparr> compositeFee := Some (if isEnvironmentalPermit d then 2000 else 0),
                       totalFee := administrationFee cf + (if isEnvironmentalPermit d then 2000 else 0) \<rparr>))"
  by (simp add: retoggle_snoc retoggle_last_patch effect_active compositeFor_def COMPOSITE_FEE_def)

text \<open>
  C5 on the stored example breakdown: five changes of the permit type ending on
  Environmental give total 5000, as one change to Environmental does.
\<close>

theorem retoggle_no_accumulation_witness:
  "hasCalculatedOnce computedState
   \<and> calculatedFees computedState = Some (exampleBreakdown\<lparr> compositeFee := Some 0 \<rparr>)
   \<and> calculatedFees (retoggle [environmentalDraft, exampleDraft, environmentalDraft, exampleDraft,
                                environmentalDraft] computedState)
       = Some (exampleBreakdown\<lparr> compositeFee := Some 2000, totalFee := 5000 \<rparr>)
   \<and> calculatedFees (fst (permitTypeEffect environmentalDraft computedState))
       = Some (exampleBreakdown\<lparr> compositeFee := Some 2000, totalFee := 5000 \<rparr>)"
proof -
  have h: "hasCalculatedOnce computedState"
    and c: "calculatedFees computedState = Some (exampleBreakdown\<lparr> compositeFee := Some 0 \<rparr>)"
    by (simp_all add: computedState_def)
  have a: "administrationFee exampleBreakdown = 3000" by (simp add: exampleBreakdown_def)
  note t = retoggle_no_accumulation [where
        ds = "[environmentalDraft, exampleDraft, environmentalDraft, exampleDraft]"
        and d = environmentalDraft and st = computedState
        and cf = "exampleBreakdown\<lparr> compositeFee := Some 0 \<rparr>"]
  have k: "calculatedFees (retoggle [environmentalDraft, exampleDraft, environmentalDraft, exampleDraft,
                                environmentalDraft] computedState)
       = Some (exampleBreakdown\<lparr> compositeFee := Some 2000, totalFee := 5000 \<rparr>)"
    using t [THEN conjunct2, THEN conjunct2] h c a environmentalDraft_environmental by simp
  have r: "retoggle [environmentalDraft, exampleDraft, environmentalDraft, exampleDraft,
                                environmentalDraft] computedState
       = fst (permitTypeEffect environmentalDraft computedState)"
    using t [THEN conjunct1] by simp
  show ?thesis using h c k r by simp
qed

subsection \<open>C6: what becomes of a validation error\<close>


subsection \<open>C7: a request without activity type and sub-category\<close>

text \<open>
  C7. The validator rejects every request whose activity type and sub-category are both
  empty, with a non-empty error list. In the component, a draft with neither activity
  category nor sub-category is not computed on mount: no lookup, no \<^verbatim>\<open>onChange\<close>,
  no change of state.
\<close>

theorem uncategorised_request_rejected:
  "(activityType p = [] \<and> activitySubCategory p = [] \<longrightarrow>
      \<not> isValid (validate p) \<and> errors (validate p) \<noteq> [])
   \<and> (\<not> truthy (activity_category d) \<and> \<not> truthy (activity_subcategory d) \<longrightarrow>
      autoCalculateOnMount validateParameters calculateFeesWithSupabase loading d st = (st, []))"
proof (rule conjI; rule impI)
  assume "activityType p = [] \<and> activitySubCategory p = []"
  then show "\<not> isValid (validate p) \<and> errors (validate p) \<noteq> []"
    by (simp add: validate_def Let_def)
next
  assume "\<not> truthy (activity_category d) \<and> \<not> truthy (activity_subcategory d)"
  then have "\<not> hasRequiredParams d" by (simp add: hasRequiredParams_def)
  then show "autoCalculateOnMount validateParameters calculateFeesWithSupabase loading d st = (st, [])"
    by (simp add: mount_idle)
qed

text \<open>C7 at a request and at a draft that name neither category nor sub-category.\<close>

theorem uncategorised_request_rejected_witness:
  "activityType uncategorisedRequest = [] \<and> activitySubCategory uncategorisedRequest = []
   \<and> \<not> isValid (validate uncategorisedRequest)
   \<and> errors (validate uncategorisedRequest) \<noteq> []
   \<and> \<not> truthy (activity_category uncategorisedDraft)
   \<and> \<not> truthy (activity_subcategory uncategorisedDraft)
   \<and> autoCalculateOnMount validate technicalFeeLookup False uncategorisedDraft
        (initialState uncategorisedDraft) = (initialState uncategorisedDraft, [])"
proof -
  have r: "activityType uncategorisedRequest = []" "activitySubCategory uncategorisedRequest = []"
    by (simp_all add: uncategorisedRequest_def)
  have t: "\<not> truthy (activity_category uncategorisedDraft)"
    "\<not> truthy (activity_subcategory uncategorisedDraft)"
    by (simp_all add: uncategorisedDraft_def truthy_def)
  show ?thesis
    using uncategorised_request_rejected [where p = uncategorisedRequest and d = uncategorisedDraft
        and validateParameters = validate and calculateFeesWithSupabase = technicalFeeLookup
        and loading = False and st = "initialState uncategorisedDraft"]
      r t
    by simp
qed

subsection \<open>C8: what the component remembers between computations\<close>

text \<open>
  C8, as stated, at concrete inputs. The auto-calculation on mount computes for the
  example draft and does nothing when invoked again on the state it left behind; it
  does nothing either for a draft that builds the same request but carries a cached
  breakdown. With the same breakdown stored, the permit-type effect recomputes when the
  once-flag is set and does nothing in a component mounted on the cached draft, where
  it is not.
\<close>

theorem engine_statelessness_counterexample:
  "snd (autoCalculateOnMount validate (calculateFeesFromSpec exampleConfig exampleRecords) False
          exampleDraft (initialState exampleDraft)) \<noteq> []
   \<and> snd (autoCalculateOnMount validate (calculateFeesFromSpec exampleConfig exampleRecords) False
          exampleDraft
          (fst (autoCalculateOnMount validate (calculateFeesFromSpec exampleConfig exampleRecords)
                  False exampleDraft (initialState exampleDraft)))) = []
   \<and> buildParams cachedDraft = buildParams exampleDraft
   \<and> snd (autoCalculateOnMount validate (calculateFeesFromSpec exampleConfig exampleRecords) False
          cachedDraft (initialState cachedDraft)) = []
   \<and> calculatedFees (initialState cachedDraft) = calculatedFees computedState
   \<and> snd (permitTypeEffect environmentalDraft computedState) \<noteq> []
   \<and> snd (permitTypeEffect environmentalDraft (initialState cachedDraft)) = []"
proof (intro conjI)
  show "snd (autoCalculateOnMount validate (calculateFeesFromSpec exampleConfig exampleRecords) False
          exampleDraft (initialState exampleDraft)) \<noteq> []"
    by (simp add: mount_exampleDraft)
  have "hasCalculatedOnce computedState" by (simp add: computedState_def)
  then show "snd (autoCalculateOnMount validate (calculateFeesFromSpec exampleConfig exampleRecords) False
          exampleDraft
          (fst (autoCalculateOnMount validate (calculateFeesFromSpec exampleConfig exampleRecords)
                  False exampleDraft (initialState exampleDraft)))) = []"
    by (simp add: mount_exampleDraft mount_idle)
  show "buildParams cachedDraft = buildParams exampleDraft"
    by (simp add: buildParams_def cachedDraft_def)
  have "data_calculatedFees cachedDraft \<noteq> None" by (simp add: cachedDraft_def)
  then show "snd (autoCalculateOnMount validate (calculateFeesFromSpec exampleConfig exampleRecords) False
          cachedDraft (initialState cachedDraft)) = []"
    by (simp add: mount_idle)
  show "calculatedFees (initialState cachedDraft) = calculatedFees computedState"
    by (simp add: initialState_def cachedDraft_def computedState_def)
  have "hasCalculatedOnce computedState"
    "calculatedFees computedState = Some (exampleBreakdown\<lparr> compositeFee := Some 0 \<rparr>)"
    by (simp_all add: computedState_def)
  then show "snd (permitTypeEffect environmentalDraft computedState) \<noteq> []"
    by (simp add: effect_active)
  have "\<not> hasCalculatedOnce (initialState cachedDraft)" by (simp add: initialState_def)
  then show "snd (permitTypeEffect environmentalDraft (initialState cachedDraft)) = []"
    by (simp add: effect_idle)
qed

text \<open>
  C8, amended. The handler itself reads neither the once-flag nor the stored breakdown:
  the calls it makes and the errors it stores are the same from any two states, and
  after a successful computation the whole resulting state is. The two effects are
  gated by what the component remembers: the auto-calculation runs the handler exactly
  when the draft has the required fields, the once-flag is not set, the hook is not
  loading and the draft carries no cached breakdown; the permit-type effect acts
  exactly when the once-flag is set and a breakdown is stored.
\<close>

theorem handler_stateless_effects_gated:
  "snd (handleCalculateFees validateParameters calculateFeesWithSupabase d st)
     = snd (handleCalculateFees validateParameters calculateFeesWithSupabase d st')
   \<and> calculationError (fst (handleCalculateFees validateParameters calculateFeesWithSupabase d st))
     = calculationError (fst (handleCalculateFees validateParameters calculateFeesWithSupabase d st'))
   \<and> validationErrors (fst (handleCalculateFees validateParameters calculateFeesWithSupabase d st))
     = validationErrors (fst (handleCalculateFees validateParameters calculateFeesWithSupabase d st'))
   \<and> (isValid (validateParameters (buildParams d))
        \<and> calculateFeesWithSupabase (buildParams d) = Resolved (Some f) \<longrightarrow>
      handleCalculateFees validateParameters calculateFeesWithSupabase d st
        = handleCalculateFees validateParameters calculateFeesWithSupabase d st')
   \<and> (hasRequiredParams d \<and> \<not> hasCalculatedOnce st \<and> \<not> loading \<and> data_calculatedFees d = None \<longrightarrow>
      autoCalculateOnMount validateParameters calculateFeesWithSupabase loading d st
        = handleCalculateFees validateParameters calculateFeesWithSupabase d st)
   \<and> (\<not> hasRequiredParams d \<or> hasCalculatedOnce st \<or> loading \<or> data_calculatedFees d \<noteq> None \<longrightarrow>
      autoCalculateOnMount validateParameters calculateFeesWithSupabase loading d st = (st, []))
   \<and> (\<not> hasCalculatedOnce st \<or> calculatedFees st = None \<longrightarrow> permitTypeEffect d st = (st, []))
   \<and> (hasCalculatedOnce st \<and> calculatedFees st \<noteq> None \<longrightarrow> snd (permitTypeEffect d st) \<noteq> [])"
proof (intro conjI impI)
  show "snd (handleCalculateFees validateParameters calculateFeesWithSupabase d st)
     = snd (handleCalculateFees validateParameters calculateFeesWithSupabase d st')"
    by (rule handle_events_stateless)
  show "calculationError (fst (handleCalculateFees validateParameters calculateFeesWithSupabase d st))
     = calculationError (fst (handleCalculateFees validateParameters calculateFeesWithSupabase d st'))"
    by (rule handle_errors_stateless)
  show "validationErrors (fst (handleCalculateFees validateParameters calculateFeesWithSupabase d st))
     = validationErrors (fst (handleCalculateFees validateParameters calculateFeesWithSupabase d st'))"
    by (rule handle_errors_stateless)
next
  assume "isValid (validateParameters (buildParams d))
        \<and> calculateFeesWithSupabase (buildParams d) = Resolved (Some f)"
  then show "handleCalculateFees validateParameters calculateFeesWithSupabase d st
        = handleCalculateFees validateParameters calculateFeesWithSupabase d st'"
    by (simp add: handle_resolved)
next
  assume "hasRequiredParams d \<and> \<not> hasCalculatedOnce st \<and> \<not> loading \<and> data_calculatedFees d = None"
  then show "autoCalculateOnMount validateParameters calculateFeesWithSupabase loading d st
        = handleCalculateFees validateParameters calculateFeesWithSupabase d st"
    by (simp add: mount_active)
next
  assume "\<not> hasRequiredParams d \<or> hasCalculatedOnce st \<or> loading \<or> data_calculatedFees d \<noteq> None"
  then show "autoCalculateOnMount validateParameters calculateFeesWithSupabase loading d st = (st, [])"
    by (rule mount_idle)
next
  assume "\<not> hasCalculatedOnce st \<or> calculatedFees st = None"
  then show "permitTypeEffect d st = (st, [])" by (rule effect_idle)
next
  assume "hasCalculatedOnce st \<and> calculatedFees st \<noteq> None"
  then obtain cf where "hasCalculatedOnce st" "calculatedFees st = Some cf" by auto
  then show "snd (permitTypeEffect d st) \<noteq> []" by (simp add: effect_active)
qed

text \<open>The amended C8 at the example draft, from the initial state and from the computed one.\<close>

theorem handler_stateless_effects_gated_witness:
  "isValid (validate (buildParams exampleDraft))
   \<and> calculateFeesFromSpec exampleConfig exampleRecords (buildParams exampleDraft)
       = Resolved (Some exampleBreakdown)
   \<and> handleCalculateFees validate (calculateFeesFromSpec exampleConfig exampleRecords) exampleDraft
        (initialState exampleDraft)
       = handleCalculateFees validate (calculateFeesFromSpec exampleConfig exampleRecords) exampleDraft
        computedState
   \<and> hasRequiredParams exampleDraft \<and> \<not> hasCalculatedOnce (initialState exampleDraft)
   \<and> data_calculatedFees exampleDraft = None
   \<and> autoCalculateOnMount validate (calculateFeesFromSpec exampleConfig exampleRecords) False
        exampleDraft (initialState exampleDraft)
       = handleCalculateFees validate (calculateFeesFromSpec exampleConfig exampleRecords) exampleDraft
        (initialState exampleDraft)
   \<and> permitTypeEffect environmentalDraft (initialState exampleDraft) = (initialState exampleDraft, [])
   \<and> hasCalculatedOnce computedState \<and> calculatedFees computedState \<noteq> None
   \<and> autoCalculateOnMount validate (calculateFeesFromSpec exampleConfig exampleRecords) False
        exampleDraft computedState = (computedState, [])
   \<and> snd (permitTypeEffect environmentalDraft computedState) \<noteq> []"
proof -
  let ?hook = "calculateFeesFromSpec exampleConfig exampleRecords"
  have g: "hasRequiredParams exampleDraft" "\<not> hasCalculatedOnce (initialState exampleDraft)"
    "data_calculatedFees exampleDraft = None"
    by (simp_all add: hasRequiredParams_def exampleDraft_def truthy_def initialState_def)
  have c: "hasCalculatedOnce computedState" "calculatedFees computedState \<noteq> None"
    by (simp_all add: computedState_def)
  note a = handler_stateless_effects_gated [where validateParameters = validate
      and calculateFeesWithSupabase = ?hook and d = exampleDraft and f = exampleBreakdown
      and st = "initialState exampleDraft" and st' = computedState and loading = False]
  note b = handler_stateless_effects_gated [where validateParameters = validate
      and calculateFeesWithSupabase = ?hook and d = exampleDraft and loading = False
      and st = computedState]
  note e = handler_stateless_effects_gated [where d = environmentalDraft
      and st = "initialState exampleDraft"]
  note k = handler_stateless_effects_gated [where d = environmentalDraft and st = computedState]
  have 1: "handleCalculateFees validate ?hook exampleDraft (initialState exampleDraft)
       = handleCalculateFees validate ?hook exampleDraft computedState"
    using a validate_exampleDraft spec_lookup_exampleDraft by blast
  have 2: "autoCalculateOnMount validate ?hook False exampleDraft (initialState exampleDraft)
       = handleCalculateFees validate ?hook exampleDraft (initialState exampleDraft)"
    using a g by blast
  have 3: "permitTypeEffect environmentalDraft (initialState exampleDraft) = (initialState exampleDraft, [])"
    using e g by blast
  have 4: "autoCalculateOnMount validate ?hook False exampleDraft computedState = (computedState, [])"
    using b c by blast
  have 5: "snd (permitTypeEffect environmentalDraft computedState) \<noteq> []"
    using k c by blast
  show ?thesis
    using validate_exampleDraft spec_lookup_exampleDraft g c 1 2 3 4 5 by blast
qed

subsection \<open>C9: a failed lookup leaves no partial result\<close>

text \<open>
  C9. When the lookup throws, the handler has called the lookup and nothing else: the
  stored breakdown and the once-flag are unchanged, \<^verbatim>\<open>onChange\<close> is not invoked,
  and the calculation error is the message of the thrown error, or "Unknown error
  occurred" for a thrown value that is not an error. In every case the handler either
  stores a complete breakdown and passes the complete object to \<^verbatim>\<open>onChange\<close>, or
  leaves the stored breakdown and the flag as they were and does not invoke
  \<^verbatim>\<open>onChange\<close>.
\<close>

theorem lookup_failure_leaves_no_partial_result:
  "(isValid (validateParameters (buildParams d)) \<and> calculateFeesWithSupabase (buildParams d) = Rejected e \<longrightarrow>
      handleCalculateFees validateParameters calculateFeesWithSupabase d st
        = (st\<lparr> calculationError := (case e of ErrorObj m \<Rightarrow> m
                                             | NonError \<Rightarrow> ''Unknown error occurred''),
                validationErrors := [] \<rparr>,
           [LookupCall (buildParams d)]))
   \<and> ((\<exists>f. calculateFeesWithSupabase (buildParams d) = Resolved (Some f)
            \<and> isValid (validateParameters (buildParams d))
            \<and> handleCalculateFees validateParameters calculateFeesWithSupabase d st
                = (st\<lparr> calculationError := [], validationErrors := [],
                        calculatedFees := Some (f\<lparr> compositeFee := Some (compositeFor d),
                                                   totalFee := totalFee f + compositeFor d \<rparr>),
                        hasCalculatedOnce := True \<rparr>,
                   [LookupCall (buildParams d),
                    OnChange \<lparr> administration_fee = totalFee f,
                               composite_fee = compositeFor d,
                               technical_fee = 0,
                               total_fee = totalFee f + compositeFor d,
                               fee_amount = totalFee f + compositeFor d,
                               processing_days = processingDays f,
                               administration_form = administrationForm f,
                               technical_form = technicalForm f,
                               fee_source = source f,
                               patch_calculatedFees = f\<lparr> compositeFee := Some (compositeFor d),
                                                   totalFee := totalFee f + compositeFor d \<rparr>,
                               fee_breakdown = f\<lparr> compositeFee := Some (compositeFor d),
                                                   totalFee := totalFee f + compositeFor d \<rparr> \<rparr>]))
       \<or> (calculatedFees (fst (handleCalculateFees validateParameters calculateFeesWithSupabase d st))
             = calculatedFees st
          \<and> hasCalculatedOnce (fst (handleCalculateFees validateParameters calculateFeesWithSupabase d st))
             = hasCalculatedOnce st
          \<and> set (snd (handleCalculateFees validateParameters calculateFeesWithSupabase d st))
             \<subseteq> {LookupCall (buildParams d)}))"
proof (intro conjI impI)
  assume "isValid (validateParameters (buildParams d)) \<and> calculateFeesWithSupabase (buildParams d) = Rejected e"
  then show "handleCalculateFees validateParameters calculateFeesWithSupabase d st
        = (st\<lparr> calculationError := (case e of ErrorObj m \<Rightarrow> m
                                             | NonError \<Rightarrow> ''Unknown error occurred''),
                validationErrors := [] \<rparr>,
           [LookupCall (buildParams d)])"
    by (simp add: handle_rejected)
next
  let ?R = "handleCalculateFees validateParameters calculateFeesWithSupabase d st"
  show "(\<exists>f. calculateFeesWithSupabase (buildParams d) = Resolved (Some f)
            \<and> isValid (validateParameters (buildParams d))
            \<and> ?R
                = (st\<lparr> calculationError := [], validationErrors := [],
                        calculatedFees := Some (f\<lparr> compositeFee := Some (compositeFor d),
                                                   totalFee := totalFee f + compositeFor d \<rparr>),
                        hasCalculatedOnce := True \<rparr>,
                   [LookupCall (buildParams d),
                    OnChange \<lparr> administration_fee = totalFee f,
                               composite_fee = compositeFor d,
                               technical_fee = 0,
                               total_fee = totalFee f + compositeFor d,
                               fee_amount = totalFee f + compositeFor d,
                               processing_days = processingDays f,
                               administration_form = administrationForm f,
                               technical_form = technicalForm f,
                               fee_source = source f,
                               patch_calculatedFees = f\<lparr> compositeFee := Some (compositeFor d),
                                                   totalFee := totalFee f + compositeFor d \<rparr>,
                               fee_breakdown = f\<lparr> compositeFee := Some (compositeFor d),
                                                   totalFee := totalFee f + compositeFor d \<rparr> \<rparr>]))
       \<or> (calculatedFees (fst ?R) = calculatedFees st
          \<and> hasCalculatedOnce (fst ?R) = hasCalculatedOnce st
          \<and> set (snd ?R) \<subseteq> {LookupCall (buildParams d)})"
  proof (cases "isValid (validateParameters (buildParams d))")
    case False
    then show ?thesis by (simp add: handle_invalid)
  next
    case v: True
    show ?thesis
    proof (cases "calculateFeesWithSupabase (buildParams d)")
      case (Rejected e)
      with v show ?thesis by (simp add: handle_rejected)
    next
      case (Resolved r)
      show ?thesis
      proof (cases r)
        case None
        with v Resolved show ?thesis by (simp add: handle_falsy)
      next
        case (Some f)
        with v Resolved show ?thesis by (simp add: handle_resolved)
      qed
    qed
  qed
qed

text \<open>C9 at the example draft with a lookup that throws, a breakdown being stored already.\<close>

theorem lookup_failure_leaves_no_partial_result_witness:
  "isValid (validate (buildParams exampleDraft))
   \<and> failingLookup (buildParams exampleDraft) = Rejected (ErrorObj ''Failed to fetch'')
   \<and> handleCalculateFees validate failingLookup exampleDraft computedState
       = (computedState\<lparr> calculationError := ''Failed to fetch'' \<rparr>, [LookupCall (buildParams exampleDraft)])"
proof -
  have e: "validationErrors computedState = []" by (simp add: computedState_def)
  have f: "failingLookup (buildParams exampleDraft) = Rejected (ErrorObj ''Failed to fetch'')"
    by (simp add: failingLookup_def)
  show ?thesis
    using lookup_failure_leaves_no_partial_result [where validateParameters = validate
        and calculateFeesWithSupabase = failingLookup and d = exampleDraft and st = computedState
        and e = "ErrorObj ''Failed to fetch''"]
      validate_exampleDraft f e
    by simp
qed

subsection \<open>C10: which drafts count as Environmental\<close>

text \<open>
  C10. A draft is Environmental exactly when its permit type lower-cases to the word
  "environmental" or its permit-type identifier is the fixed one. Every casing of the
  word matches; a permit type of any other length, such as the display name
  "Environmental Permit", does not match by name.
\<close>

theorem isEnvironmentalPermit_exact_match:
  "(isEnvironmentalPermit d \<longleftrightarrow>
      (\<exists>s. permit_type d = Some s \<and> toLowerCase s = ''environmental'')
      \<or> permit_type_id d = Some ''1655df4b-bfcf-47de-85fa-c4567c749362'')
   \<and> (length bs = 13 \<longrightarrow> isEnvironmentalPermit (d\<lparr> permit_type := Some (withCasing bs ''environmental'') \<rparr>))
   \<and> (length s \<noteq> 13 \<and> permit_type_id d \<noteq> Some ''1655df4b-bfcf-47de-85fa-c4567c749362''
        \<longrightarrow> \<not> isEnvironmentalPermit (d\<lparr> permit_type := Some s \<rparr>))
   \<and> (permit_type_id d \<noteq> Some ''1655df4b-bfcf-47de-85fa-c4567c749362''
        \<longrightarrow> \<not> isEnvironmentalPermit (d\<lparr> permit_type := Some ''Environmental Permit'' \<rparr>))"
proof (intro conjI impI)
  show "isEnvironmentalPermit d \<longleftrightarrow>
      (\<exists>s. permit_type d = Some s \<and> toLowerCase s = ''environmental'')
      \<or> permit_type_id d = Some ''1655df4b-bfcf-47de-85fa-c4567c749362''"
    by (cases "permit_type d") (simp_all add: isEnvironmentalPermit_def ENVIRONMENTAL_PERMIT_TYPE_ID_def)
next
  assume "length bs = 13"
  then have "toLowerCase (withCasing bs ''environmental'') = ''environmental''"
    using toLowerCase_withCasing [of bs "''environmental''"] environmental_lower by simp
  then show "isEnvironmentalPermit (d\<lparr> permit_type := Some (withCasing bs ''environmental'') \<rparr>)"
    by (simp add: isEnvironmentalPermit_def)
next
  assume a: "length s \<noteq> 13 \<and> permit_type_id d \<noteq> Some ''1655df4b-bfcf-47de-85fa-c4567c749362''"
  have "toLowerCase s \<noteq> ''environmental''"
  proof
    assume "toLowerCase s = ''environmental''"
    then have "length (toLowerCase s) = 13" by simp
    with a show False by (simp add: length_toLowerCase)
  qed
  with a show "\<not> isEnvironmentalPermit (d\<lparr> permit_type := Some s \<rparr>)"
    by (simp add: isEnvironmentalPermit_def ENVIRONMENTAL_PERMIT_TYPE_ID_def)
next
  assume a: "permit_type_id d \<noteq> Some ''1655df4b-bfcf-47de-85fa-c4567c749362''"
  have "toLowerCase ''Environmental Permit'' \<noteq> ''environmental''"
    by (simp add: toLowerCase_def)
  with a show "\<not> isEnvironmentalPermit (d\<lparr> permit_type := Some ''Environmental Permit'' \<rparr>)"
    by (simp add: isEnvironmentalPermit_def ENVIRONMENTAL_PERMIT_TYPE_ID_def)
qed

text \<open>
  The equivalence at three drafts without a permit-type identifier: a mixed casing of
  the word matches, a shorter word and the display name with a second word do not.
\<close>

theorem isEnvironmentalPermit_exact_match_witness:
  "length [True, False, True, False, True, False, False, False, False, False, False, False, True] = 13
   \<and> isEnvironmentalPermit (exampleDraft\<lparr> permit_type := Some ''EnViRonmentaL'' \<rparr>)
   \<and> length ''environment'' \<noteq> 13
   \<and> permit_type_id exampleDraft \<noteq> Some ''1655df4b-bfcf-47de-85fa-c4567c749362''
   \<and> \<not> isEnvironmentalPermit (exampleDraft\<lparr> permit_type := Some ''environment'' \<rparr>)
   \<and> \<not> isEnvironmentalPermit (exampleDraft\<lparr> permit_type := Some ''Environmental Permit'' \<rparr>)"
proof -
  have w: "withCasing [True, False, True, False, True, False, False, False, False, False, False, False, True]
             ''environmental'' = ''EnViRonmentaL''"
    by code_simp
  have i: "permit_type_id exampleDraft \<noteq> Some ''1655df4b-bfcf-47de-85fa-c4567c749362''"
    by (simp add: exampleDraft_def)
  show ?thesis
    using isEnvironmentalPermit_exact_match [of exampleDraft
        "[True, False, True, False, True, False, False, False, False, False, False, False, True]"
        "''environment''"] w i
    by simp
qed

end
